theory Spec2Isabelle
  imports Main
begin

section \<open>The retry helper of src/clients/retry.ts\<close>

text \<open>
  The helper takes failures of type \<open>unknown\<close>: any JavaScript value. The values
  below are the ones the helper can tell apart: the primitives, plain objects with own
  data properties, and instances of \<open>Error\<close> (a message and further own properties).

  Numbers are the integers (\<open>int\<close>): every number the helper computes is a product or
  a minimum of integers when its inputs are, and the development covers the inputs for
  which double arithmetic is exact. \<open>NaN\<close> arises only as the result of
  \<open>Number.parseInt\<close> and is the value \<open>None\<close> there. Characters are the code
  points below 256.
\<close>

datatype jsval =
    JUndefined
  | JNull
  | JBool bool
  | JNum int
  | JStr string
  | JObj "(string \<times> jsval) list"
  | JError string "(string \<times> jsval) list"

text \<open>\<open>typeof v\<close>.\<close>

fun typeof_js :: "jsval \<Rightarrow> string" where
  "typeof_js JUndefined = ''undefined''"
| "typeof_js JNull = ''object''"
| "typeof_js (JBool b) = ''boolean''"
| "typeof_js (JNum n) = ''number''"
| "typeof_js (JStr s) = ''string''"
| "typeof_js (JObj ps) = ''object''"
| "typeof_js (JError m ps) = ''object''"

text \<open>The truthiness test of \<open>if (v)\<close>, \<open>!v\<close> and \<open>v && ...\<close>.\<close>

fun truthy :: "jsval \<Rightarrow> bool" where
  "truthy JUndefined = False"
| "truthy JNull = False"
| "truthy (JBool b) = b"
| "truthy (JNum n) = (n \<noteq> 0)"
| "truthy (JStr s) = (s \<noteq> [])"
| "truthy (JObj ps) = True"
| "truthy (JError m ps) = True"

text \<open>\<open>v instanceof Error\<close>.\<close>

fun instanceof_Error :: "jsval \<Rightarrow> bool" where
  "instanceof_Error (JError m ps) = True"
| "instanceof_Error v = False"

text \<open>
  The own properties of an object; the message of an \<open>Error\<close> is its property
  \<open>message\<close>.
\<close>

fun properties :: "jsval \<Rightarrow> (string \<times> jsval) list" where
  "properties (JObj ps) = ps"
| "properties (JError m ps) = (''message'', JStr m) # ps"
| "properties v = []"

text \<open>
  \<open>Reflect.get(target, key)\<close>: the value of the property, \<open>undefined\<close> when the
  object has none. (On a target that is not an object \<open>Reflect.get\<close> throws a
  TypeError; the helper calls it behind the test \<open>typeof target === "object"\<close> only.)
\<close>

definition Reflect_get :: "jsval \<Rightarrow> string \<Rightarrow> jsval" where
  "Reflect_get target key =
     (case map_of (properties target) key of None \<Rightarrow> JUndefined | Some v \<Rightarrow> v)"

text \<open>\<open>a ?? b\<close>: \<open>b\<close> when \<open>a\<close> is \<open>null\<close> or \<open>undefined\<close>, else \<open>a\<close>.\<close>

fun nullish :: "jsval \<Rightarrow> bool" where
  "nullish JUndefined = True"
| "nullish JNull = True"
| "nullish v = False"

definition coalesce :: "jsval \<Rightarrow> jsval \<Rightarrow> jsval" where
  "coalesce a b = (if nullish a then b else a)"

subsection \<open>Strings\<close>

text \<open>\<open>c.toLowerCase()\<close> on the code points below 256: A-Z and the capital letters
  of Latin-1 (0xC0-0xDE without the multiplication sign 0xD7) move up by 32.\<close>

definition lower_char :: "char \<Rightarrow> char" where
  "lower_char c =
     (let n = of_char c :: nat in
      if (65 \<le> n \<and> n \<le> 90) \<or> (192 \<le> n \<and> n \<le> 222 \<and> n \<noteq> 215)
      then char_of (n + 32) else c)"

definition toLowerCase :: "string \<Rightarrow> string" where
  "toLowerCase s = map lower_char s"

fun startsWith :: "string \<Rightarrow> string \<Rightarrow> bool" where
  "startsWith s [] = True"
| "startsWith [] (d # ds) = False"
| "startsWith (c # cs) (d # ds) = (c = d \<and> startsWith cs ds)"

text \<open>\<open>s.includes(t)\<close>: \<open>t\<close> occurs in \<open>s\<close> as a contiguous run.\<close>

fun includes_str :: "string \<Rightarrow> string \<Rightarrow> bool" where
  "includes_str [] t = (t = [])"
| "includes_str (c # cs) t = (startsWith (c # cs) t \<or> includes_str cs t)"

text \<open>
  \<open>Number.parseInt(s, 10)\<close>: leading white space is skipped, one sign is read, then
  the longest run of decimal digits; whatever follows is ignored. No digit gives
  \<open>NaN\<close> (\<open>None\<close>).
\<close>

definition isWhiteSpace :: "char \<Rightarrow> bool" where
  "isWhiteSpace c = (of_char c \<in> {9, 10, 11, 12, 13, 32, 160 :: nat})"

definition isDigit :: "char \<Rightarrow> bool" where
  "isDigit c = (48 \<le> (of_char c :: nat) \<and> (of_char c :: nat) \<le> 57)"

definition digitValue :: "char \<Rightarrow> int" where
  "digitValue c = int (of_char c) - 48"

definition digitsValue :: "string \<Rightarrow> int" where
  "digitsValue ds = foldl (\<lambda>acc c. acc * 10 + digitValue c) 0 ds"

definition parseInt10 :: "string \<Rightarrow> int option" where
  "parseInt10 inputString =
     (let S = dropWhile isWhiteSpace inputString;
          sign = (if S \<noteq> [] \<and> hd S = CHR ''-'' then - 1 else 1 :: int);
          S' = (if S \<noteq> [] \<and> (hd S = CHR ''+'' \<or> hd S = CHR ''-'') then tl S else S);
          Z = takeWhile isDigit S'
      in if Z = [] then None else Some (sign * digitsValue Z))"

text \<open>The decimal form of an integer, as a template literal prints it.\<close>

fun digitsOf :: "nat \<Rightarrow> string" where
  "digitsOf n =
     (if n < 10 then [char_of (48 + n)] else digitsOf (n div 10) @ [char_of (48 + n mod 10)])"

definition showNumber :: "int \<Rightarrow> string" where
  "showNumber i = (if i < 0 then CHR ''-'' # digitsOf (nat (- i)) else digitsOf (nat i))"

subsection \<open>The default predicates\<close>

definition RETRYABLE_STATUS_CODES :: "int set" where
  "RETRYABLE_STATUS_CODES = {408, 429, 500, 502, 503, 504}"

definition isRetryableStatusCode :: "int \<Rightarrow> bool" where
  "isRetryableStatusCode statusCode = (statusCode \<in> RETRYABLE_STATUS_CODES)"

text \<open>\<open>typeof v === "number" && isRetryableStatusCode(v)\<close>.\<close>

fun retryableNumber :: "jsval \<Rightarrow> bool" where
  "retryableNumber (JNum n) = isRetryableStatusCode n"
| "retryableNumber v = False"

definition messageOf :: "jsval \<Rightarrow> string" where
  "messageOf error = (case error of JError m ps \<Rightarrow> m | _ \<Rightarrow> [])"

definition defaultIsRetryable :: "jsval \<Rightarrow> bool" where
  "defaultIsRetryable error =
     (if truthy error \<and> typeof_js error = ''object'' \<and>
         retryableNumber (coalesce (Reflect_get error ''status'') (Reflect_get error ''code''))
      then True
      else if truthy error \<and> typeof_js error = ''object'' \<and>
         retryableNumber (Reflect_get error ''statusCode'')
      then True
      else if instanceof_Error error \<and>
         (let message = toLowerCase (messageOf error) in
            includes_str message ''timeout'' \<or>
            includes_str message ''econnreset'' \<or>
            includes_str message ''econnrefused'' \<or>
            includes_str message ''socket hang up'' \<or>
            includes_str message ''network'' \<or>
            includes_str message ''request_timeout'')
      then True
      else False)"

definition defaultGetRetryAfterMs :: "jsval \<Rightarrow> int option" where
  "defaultGetRetryAfterMs error =
     (if \<not> truthy error \<or> typeof_js error \<noteq> ''object'' then None
      else
        let headers = Reflect_get error ''headers'' in
        if truthy headers \<and> typeof_js headers = ''object'' then
          (let retryAfter =
                 coalesce (Reflect_get headers ''retry-after'') (Reflect_get headers ''Retry-After'')
           in case retryAfter of
                JStr s \<Rightarrow>
                  (case parseInt10 s of
                     Some seconds \<Rightarrow> Some (seconds * 1000)
                   | None \<Rightarrow> None)
              | JNum n \<Rightarrow> Some (n * 1000)
              | _ \<Rightarrow> None)
        else None)"

subsection \<open>The retry loop\<close>

text \<open>
  \<open>RetryOptions\<close>: every field is optional, an absent field (\<open>None\<close>) takes
  its default in \<open>withRetry\<close>.
\<close>

record RetryOptions =
  maxRetries :: "int option"
  initialDelayMs :: "int option"
  maxDelayMs :: "int option"
  isRetryable :: "(jsval \<Rightarrow> bool) option"
  getRetryAfterMs :: "(jsval \<Rightarrow> int option) option"
  label :: "string option"

definition DEFAULT_maxRetries :: int where "DEFAULT_maxRetries = 10"
definition DEFAULT_initialDelayMs :: int where "DEFAULT_initialDelayMs = 1000"
definition DEFAULT_maxDelayMs :: int where "DEFAULT_maxDelayMs = 30000"

definition maxRetriesOf :: "RetryOptions \<Rightarrow> int" where
  "maxRetriesOf options = (case maxRetries options of None \<Rightarrow> DEFAULT_maxRetries | Some n \<Rightarrow> n)"

definition initialDelayMsOf :: "RetryOptions \<Rightarrow> int" where
  "initialDelayMsOf options =
     (case initialDelayMs options of None \<Rightarrow> DEFAULT_initialDelayMs | Some n \<Rightarrow> n)"

definition maxDelayMsOf :: "RetryOptions \<Rightarrow> int" where
  "maxDelayMsOf options = (case maxDelayMs options of None \<Rightarrow> DEFAULT_maxDelayMs | Some n \<Rightarrow> n)"

definition isRetryableOf :: "RetryOptions \<Rightarrow> jsval \<Rightarrow> bool" where
  "isRetryableOf options = (case isRetryable options of None \<Rightarrow> defaultIsRetryable | Some f \<Rightarrow> f)"

definition getRetryAfterMsOf :: "RetryOptions \<Rightarrow> jsval \<Rightarrow> int option" where
  "getRetryAfterMsOf options =
     (case getRetryAfterMs options of None \<Rightarrow> defaultGetRetryAfterMs | Some f \<Rightarrow> f)"

text \<open>
  What one call of \<open>withRetry\<close> does besides returning: the invocations of the
  operation (counted), the lines written with \<open>console.error\<close> and the delays slept,
  oldest first.
\<close>

record effects =
  calls :: nat
  stderr :: "string list"
  slept :: "int list"

definition noEffects :: effects where
  "noEffects = \<lparr>calls = 0, stderr = [], slept = []\<rparr>"

definition console_error :: "string \<Rightarrow> effects \<Rightarrow> effects" where
  "console_error line w = w\<lparr>stderr := stderr w @ [line]\<rparr>"

definition sleep :: "int \<Rightarrow> effects \<Rightarrow> effects" where
  "sleep ms w = w\<lparr>slept := slept w @ [ms]\<rparr>"

text \<open>
  \<open>delay = Math.min(retryAfter ?? exponentialDelay, maxDelayMs)\<close>, for the failure
  caught in the iteration \<open>attempt\<close>.
\<close>

definition delayFor :: "RetryOptions \<Rightarrow> int \<Rightarrow> jsval \<Rightarrow> int" where
  "delayFor options attempt error =
     (let retryAfter = getRetryAfterMsOf options error;
          exponentialDelay = initialDelayMsOf options * 2 ^ nat attempt
      in min (case retryAfter of None \<Rightarrow> exponentialDelay | Some h \<Rightarrow> h) (maxDelayMsOf options))"

text \<open>The line written before a retry; an absent or empty label gives no prefix.\<close>

definition retryMessage :: "RetryOptions \<Rightarrow> int \<Rightarrow> int \<Rightarrow> string" where
  "retryMessage options delay attempt =
     (let nextAttempt = attempt + 1;
          prefix = (case label options of
                      None \<Rightarrow> []
                    | Some l \<Rightarrow> if l \<noteq> [] then l @ '': '' else [])
      in prefix @ ''Transient error, retrying in '' @ showNumber delay @ ''ms (attempt '' @
         showNumber nextAttempt @ ''/'' @ showNumber (maxRetriesOf options) @ '')'')"

text \<open>
  The operation \<open>fn\<close> is given by what each of its invocations settles to: \<open>fn k\<close>
  is the outcome of the invocation number \<open>k\<close> (from 0), \<open>Inl\<close> a rejection with the
  thrown value, \<open>Inr\<close> the value it resolves with. The result of \<open>withRetry\<close> is of
  the same kind, paired with the effects. Every invocation settles: an operation that
  never settles leaves \<open>withRetry\<close> pending and is not covered.

  The loop \<open>for (attempt = 0; attempt <= maxRetries; attempt++)\<close> with the variable
  \<open>lastError\<close>; leaving the loop ends in \<open>throw lastError\<close>.
\<close>

function retryLoop ::
  "(nat \<Rightarrow> jsval + 'a) \<Rightarrow> RetryOptions \<Rightarrow> int \<Rightarrow> jsval \<Rightarrow> effects \<Rightarrow> (jsval + 'a) \<times> effects"
where
  "retryLoop fn options attempt lastError w =
     (if attempt \<le> maxRetriesOf options then
        (case fn (calls w) of
           Inr v \<Rightarrow> (Inr v, w\<lparr>calls := calls w + 1\<rparr>)
         | Inl error \<Rightarrow>
             if \<not> isRetryableOf options error then (Inl error, w\<lparr>calls := calls w + 1\<rparr>)
             else if attempt = maxRetriesOf options then (Inl error, w\<lparr>calls := calls w + 1\<rparr>)
             else
               retryLoop fn options (attempt + 1) error
                 (sleep (delayFor options attempt error)
                    (console_error (retryMessage options (delayFor options attempt error) attempt)
                       (w\<lparr>calls := calls w + 1\<rparr>))))
      else (Inl lastError, w))"
  by pat_completeness auto
termination
  by (relation "measure (\<lambda>(fn, options, attempt, lastError, w). nat (maxRetriesOf options + 1 - attempt))")
     auto

definition withRetry :: "(nat \<Rightarrow> jsval + 'a) \<Rightarrow> RetryOptions \<Rightarrow> (jsval + 'a) \<times> effects" where
  "withRetry fn options = retryLoop fn options 0 JUndefined noEffects"

subsection \<open>The predicates as the specification words them\<close>

text \<open>
  The specification gives the default retryability predicate in words: a failure is
  retryable if it carries a numeric status or error code field equal to one of 408, 429,
  500, 502, 503, 504, under the key \<open>status\<close>, \<open>code\<close> or \<open>statusCode\<close>, or if
  it is an error whose message contains, case-insensitively, one of six fragments.
  \<open>specIsRetryable\<close> follows these words, to be compared with \<open>defaultIsRetryable\<close>.
\<close>

definition specStatusCodes :: "int set" where
  "specStatusCodes = {408, 429, 500, 502, 503, 504}"

definition specFragments :: "string list" where
  "specFragments = [''timeout'', ''econnreset'', ''econnrefused'', ''socket hang up'',
     ''network'', ''request_timeout'']"

definition carriesRetryableCode :: "jsval \<Rightarrow> bool" where
  "carriesRetryableCode failure =
     (\<exists>key \<in> {''status'', ''code'', ''statusCode''}. \<exists>n \<in> specStatusCodes.
        Reflect_get failure key = JNum n)"

text \<open>A run of the message is the fragment, up to the case of letters.\<close>

definition containsIgnoringCase :: "string \<Rightarrow> string \<Rightarrow> bool" where
  "containsIgnoringCase message fragment =
     (\<exists>before run after. message = before @ run @ after \<and> toLowerCase run = toLowerCase fragment)"

definition specIsRetryable :: "jsval \<Rightarrow> bool" where
  "specIsRetryable failure =
     (carriesRetryableCode failure \<or>
      (instanceof_Error failure \<and>
       (\<exists>fragment \<in> set specFragments. containsIgnoringCase (messageOf failure) fragment)))"



subsection \<open>What the code reads\<close>

text \<open>A value that passes \<open>v && typeof v === "object"\<close>.\<close>

fun isObject :: "jsval \<Rightarrow> bool" where
  "isObject (JObj ps) = True"
| "isObject (JError m ps) = True"
| "isObject v = False"

text \<open>The value of \<open>status ?? code\<close>: the property \<open>code\<close> is read only when
  \<open>status\<close> is absent, \<open>undefined\<close> or \<open>null\<close>.\<close>

definition statusOrCode :: "jsval \<Rightarrow> jsval" where
  "statusOrCode failure =
     (if Reflect_get failure ''status'' = JUndefined \<or> Reflect_get failure ''status'' = JNull
      then Reflect_get failure ''code'' else Reflect_get failure ''status'')"



subsection \<open>Inputs of the scenarios\<close>

text \<open>\<open>withRetry(fn)\<close>: the options default to \<open>{}\<close>.\<close>

definition noOptions :: RetryOptions where
  "noOptions = \<lparr>maxRetries = None, initialDelayMs = None, maxDelayMs = None,
     isRetryable = None, getRetryAfterMs = None, label = None\<rparr>"

text \<open>A malformed configuration: \<open>{ maxRetries: -1 }\<close>.\<close>

definition negativeBudget :: RetryOptions where
  "negativeBudget = noOptions\<lparr>maxRetries := Some (- 1)\<rparr>"

definition budgetOfTwo :: RetryOptions where
  "budgetOfTwo = noOptions\<lparr>maxRetries := Some 2\<rparr>"

text \<open>A failure \<open>{ status: n }\<close>.\<close>

definition statusFailure :: "int \<Rightarrow> jsval" where
  "statusFailure n = JObj [(''status'', JNum n)]"

text \<open>Operations: one that resolves with \<open>"ok"\<close> at once, and those that reject
  every time with the status 404 or 429.\<close>

definition resolvesOk :: "nat \<Rightarrow> jsval + string" where
  "resolvesOk k = Inr ''ok''"

definition always404 :: "nat \<Rightarrow> jsval + string" where
  "always404 k = Inl (statusFailure 404)"

definition always429 :: "nat \<Rightarrow> jsval + string" where
  "always429 k = Inl (statusFailure 429)"



text \<open>Failures: \<open>{ status: 200, code: 503 }\<close>; the failure with the header
  \<open>retry-after: v\<close> and the status 503; an \<open>Error\<close> with a message in capitals.\<close>

definition shadowedCode :: jsval where
  "shadowedCode = JObj [(''status'', JNum 200), (''code'', JNum 503)]"



definition socketHangUp :: jsval where
  "socketHangUp = JError ''Socket Hang Up'' []"

text \<open>Operations: one that throws a string, and one that rejects once with the
  header \<open>retry-after: -5\<close> and then resolves.\<close>

definition throwsString :: "nat \<Rightarrow> jsval + string" where
  "throwsString k = Inl (JStr ''request timeout'')"


section \<open>Properties\<close>

subsection \<open>One iteration of the loop\<close>

declare retryLoop.simps [simp del]

lemma retryLoop_exit:
  "maxRetriesOf options < attempt \<Longrightarrow>
   retryLoop fn options attempt lastError w = (Inl lastError, w)"
  by (subst retryLoop.simps) simp

lemma retryLoop_resolves:
  "attempt \<le> maxRetriesOf options \<Longrightarrow> fn (calls w) = Inr v \<Longrightarrow>
   retryLoop fn options attempt lastError w = (Inr v, w\<lparr>calls := calls w + 1\<rparr>)"
  by (subst retryLoop.simps) simp

lemma retryLoop_not_retryable:
  "attempt \<le> maxRetriesOf options \<Longrightarrow> fn (calls w) = Inl e \<Longrightarrow>
   \<not> isRetryableOf options e \<Longrightarrow>
   retryLoop fn options attempt lastError w = (Inl e, w\<lparr>calls := calls w + 1\<rparr>)"
  by (subst retryLoop.simps) simp

lemma retryLoop_exhausted:
  "attempt = maxRetriesOf options \<Longrightarrow> fn (calls w) = Inl e \<Longrightarrow>
   retryLoop fn options attempt lastError w = (Inl e, w\<lparr>calls := calls w + 1\<rparr>)"
  by (subst retryLoop.simps) simp

lemma retryLoop_retry:
  "attempt < maxRetriesOf options \<Longrightarrow> fn (calls w) = Inl e \<Longrightarrow> isRetryableOf options e \<Longrightarrow>
   retryLoop fn options attempt lastError w =
     retryLoop fn options (attempt + 1) e
       (sleep (delayFor options attempt e)
          (console_error (retryMessage options (delayFor options attempt e) attempt)
             (w\<lparr>calls := calls w + 1\<rparr>)))"
  by (subst retryLoop.simps) simp

lemma statusFailure_404_rejected: "\<not> defaultIsRetryable (statusFailure 404)"
  by (simp add: defaultIsRetryable_def statusFailure_def Reflect_get_def coalesce_def
      isRetryableStatusCode_def RETRYABLE_STATUS_CODES_def)

lemma statusFailure_429_accepted: "defaultIsRetryable (statusFailure 429)"
  by (simp add: defaultIsRetryable_def statusFailure_def Reflect_get_def coalesce_def
      isRetryableStatusCode_def RETRYABLE_STATUS_CODES_def)

lemma maxRetriesOf_negativeBudget: "maxRetriesOf negativeBudget = - 1"
  by (simp add: maxRetriesOf_def negativeBudget_def noOptions_def)

lemma maxRetriesOf_budgetOfTwo: "maxRetriesOf budgetOfTwo = 2"
  by (simp add: maxRetriesOf_def budgetOfTwo_def noOptions_def)

lemma maxRetriesOf_noOptions: "maxRetriesOf noOptions = 10"
  by (simp add: maxRetriesOf_def noOptions_def DEFAULT_maxRetries_def)

lemma isRetryableOf_default:
  "isRetryableOf noOptions = defaultIsRetryable"
  "isRetryableOf negativeBudget = defaultIsRetryable"
  "isRetryableOf budgetOfTwo = defaultIsRetryable"
  by (simp_all add: isRetryableOf_def noOptions_def negativeBudget_def budgetOfTwo_def)

subsection \<open>A first attempt that succeeds\<close>

text \<open>
  Claim C7, as amended. When the retry budget is not negative and the first invocation of
  the operation resolves with \<open>v\<close>, \<open>withRetry\<close> resolves with \<open>v\<close> after that
  single invocation: nothing is slept and no line is written. (With a negative
  \<open>maxRetries\<close> the operation is not invoked at all, see below.)
\<close>

theorem withRetry_first_success:
  "0 \<le> maxRetriesOf options \<Longrightarrow> fn 0 = Inr v \<Longrightarrow>
   withRetry fn options = (Inr v, \<lparr>calls = 1, stderr = [], slept = []\<rparr>)"
  by (simp add: withRetry_def noEffects_def retryLoop_resolves)

theorem withRetry_first_success_witness:
  "withRetry resolvesOk noOptions = (Inr ''ok'', \<lparr>calls = 1, stderr = [], slept = []\<rparr>)"
  using withRetry_first_success [of noOptions resolvesOk "''ok''"]
  by (simp add: maxRetriesOf_noOptions resolvesOk_def)

text \<open>
  The claim as it is written, for every policy, fails at \<open>{ maxRetries: -1 }\<close>: the
  operation would resolve with \<open>"ok"\<close>, and \<open>withRetry\<close> rejects with
  \<open>undefined\<close> without invoking it.
\<close>

theorem withRetry_first_success_counterexample:
  "resolvesOk 0 = Inr ''ok'' \<and>
   fst (withRetry resolvesOk negativeBudget) = Inl JUndefined \<and>
   calls (snd (withRetry resolvesOk negativeBudget)) = 0"
  by (simp add: withRetry_def retryLoop_exit maxRetriesOf_negativeBudget resolvesOk_def
      noEffects_def)

subsection \<open>A failure that is not retryable\<close>

text \<open>
  Claim C2, as amended. When the retry budget is not negative and the first invocation
  rejects with a failure \<open>e\<close> that the retryability predicate of the policy rejects,
  \<open>withRetry\<close> rejects with \<open>e\<close> itself after that single invocation, whatever
  the budget is otherwise: nothing is slept and no line is written.
\<close>

theorem withRetry_not_retryable:
  "0 \<le> maxRetriesOf options \<Longrightarrow> fn 0 = Inl e \<Longrightarrow> \<not> isRetryableOf options e \<Longrightarrow>
   withRetry fn options = (Inl e, \<lparr>calls = 1, stderr = [], slept = []\<rparr>)"
  by (simp add: withRetry_def noEffects_def retryLoop_not_retryable)

theorem withRetry_not_retryable_witness:
  "withRetry always404 budgetOfTwo =
     (Inl (statusFailure 404), \<lparr>calls = 1, stderr = [], slept = []\<rparr>)"
  using withRetry_not_retryable [of budgetOfTwo always404 "statusFailure 404"]
  by (simp add: maxRetriesOf_budgetOfTwo always404_def isRetryableOf_default
      statusFailure_404_rejected)

text \<open>
  The claim as it is written, regardless of \<open>maxRetries\<close>, fails at
  \<open>{ maxRetries: -1 }\<close>: the operation would reject with a failure of status 404,
  which the default predicate rejects, and \<open>withRetry\<close> rejects with
  \<open>undefined\<close> without invoking the operation.
\<close>

theorem withRetry_not_retryable_counterexample:
  "always404 0 = Inl (statusFailure 404) \<and>
   \<not> isRetryableOf negativeBudget (statusFailure 404) \<and>
   fst (withRetry always404 negativeBudget) = Inl JUndefined \<and>
   calls (snd (withRetry always404 negativeBudget)) = 0"
  by (simp add: withRetry_def retryLoop_exit maxRetriesOf_negativeBudget always404_def
      noEffects_def isRetryableOf_default statusFailure_404_rejected)

subsection \<open>A negative budget\<close>

text \<open>
  Claim C8. When \<open>maxRetries\<close> is negative the loop is left at once, without a
  return, and \<open>throw lastError\<close> propagates what the variable \<open>lastError\<close>
  holds. In \<open>withRetry\<close> nothing has been recorded in it by then: the operation has not
  been invoked, and the value thrown is \<open>undefined\<close>.
\<close>

theorem withRetry_negative_budget:
  "maxRetriesOf options < 0 \<Longrightarrow>
   retryLoop fn options 0 lastError w = (Inl lastError, w) \<and>
   withRetry fn options = (Inl JUndefined, noEffects)"
  by (simp add: withRetry_def retryLoop_exit)

theorem withRetry_negative_budget_witness:
  "retryLoop always429 negativeBudget 0 (statusFailure 429) noEffects =
     (Inl (statusFailure 429), noEffects) \<and>
   withRetry always429 negativeBudget = (Inl JUndefined, noEffects)"
  using withRetry_negative_budget [of negativeBudget always429 "statusFailure 429" noEffects]
  by (simp add: maxRetriesOf_negativeBudget)

subsection \<open>Failures that exhaust the budget\<close>

lemma retryLoop_all_fail:
  "\<forall>k. \<exists>e. fn k = Inl e \<and> isRetryableOf options e \<Longrightarrow>
   0 \<le> attempt \<Longrightarrow> attempt \<le> maxRetriesOf options \<Longrightarrow> calls w = nat attempt \<Longrightarrow>
     fst (retryLoop fn options attempt lastError w) = fn (nat (maxRetriesOf options)) \<and>
     calls (snd (retryLoop fn options attempt lastError w)) = nat (maxRetriesOf options) + 1 \<and>
     length (stderr (snd (retryLoop fn options attempt lastError w))) =
       length (stderr w) + nat (maxRetriesOf options - attempt) \<and>
     length (slept (snd (retryLoop fn options attempt lastError w))) =
       length (slept w) + nat (maxRetriesOf options - attempt)"
proof (induction fn options attempt lastError w rule: retryLoop.induct)
  case (1 fn options attempt lastError w)
  from "1.prems"(1) obtain e where e: "fn (calls w) = Inl e" "isRetryableOf options e"
    by blast
  show ?case
  proof (cases "attempt = maxRetriesOf options")
    case True
    with e "1.prems" show ?thesis
      by (simp add: retryLoop_exhausted)
  next
    case False
    with "1.prems" have lt: "attempt < maxRetriesOf options" by simp
    let ?w = "sleep (delayFor options attempt e)
          (console_error (retryMessage options (delayFor options attempt e) attempt)
             (w\<lparr>calls := calls w + 1\<rparr>))"
    have step: "retryLoop fn options attempt lastError w = retryLoop fn options (attempt + 1) e ?w"
      using lt e by (rule retryLoop_retry)
    have c: "calls ?w = nat (attempt + 1)"
      using "1.prems" by (simp add: sleep_def console_error_def nat_add_distrib)
    have ih: "fst (retryLoop fn options (attempt + 1) e ?w) = fn (nat (maxRetriesOf options)) \<and>
     calls (snd (retryLoop fn options (attempt + 1) e ?w)) = nat (maxRetriesOf options) + 1 \<and>
     length (stderr (snd (retryLoop fn options (attempt + 1) e ?w))) =
       length (stderr ?w) + nat (maxRetriesOf options - (attempt + 1)) \<and>
     length (slept (snd (retryLoop fn options (attempt + 1) e ?w))) =
       length (slept ?w) + nat (maxRetriesOf options - (attempt + 1))"
      using "1.IH"[of e] lt e "1.prems" c by simp
    have l1: "length (stderr ?w) = length (stderr w) + 1"
      by (simp add: sleep_def console_error_def)
    have l2: "length (slept ?w) = length (slept w) + 1"
      by (simp add: sleep_def console_error_def)
    have n: "1 + nat (maxRetriesOf options - (attempt + 1)) = nat (maxRetriesOf options - attempt)"
      using lt by simp
    show ?thesis
      unfolding step using ih l1 l2 n by simp
  qed
qed

text \<open>
  Claim C1. Let the policy have \<open>maxRetries = N\<close> with \<open>N\<close> not negative, and let
  every invocation of the operation reject with a failure the retryability predicate of
  the policy accepts. Then \<open>withRetry\<close> invokes the operation exactly \<open>N + 1\<close> times,
  rejects with the failure of the last of these invocations (number \<open>N\<close>, counting from
  0), and writes exactly \<open>N\<close> lines, one before each of the \<open>N\<close> delays.
\<close>

theorem withRetry_exhausts_budget:
  assumes "maxRetriesOf options = N" and "0 \<le> N"
    and "\<forall>k. \<exists>e. fn k = Inl e \<and> isRetryableOf options e"
  shows "(\<exists>e. fn (nat N) = Inl e \<and> fst (withRetry fn options) = Inl e) \<and>
    calls (snd (withRetry fn options)) = nat N + 1 \<and>
    length (stderr (snd (withRetry fn options))) = nat N \<and>
    length (slept (snd (withRetry fn options))) = nat N"
proof -
  have run: "fst (withRetry fn options) = fn (nat N) \<and>
      calls (snd (withRetry fn options)) = nat N + 1 \<and>
      length (stderr (snd (withRetry fn options))) = nat N \<and>
      length (slept (snd (withRetry fn options))) = nat N"
    unfolding withRetry_def
    using retryLoop_all_fail [of fn options 0 noEffects JUndefined] assms
    by (simp add: noEffects_def)
  from assms(3) obtain e where "fn (nat N) = Inl e" by blast
  with run show ?thesis by simp
qed

theorem withRetry_exhausts_budget_witness:
  "fst (withRetry always429 budgetOfTwo) = Inl (statusFailure 429) \<and>
   calls (snd (withRetry always429 budgetOfTwo)) = 3 \<and>
   length (stderr (snd (withRetry always429 budgetOfTwo))) = 2 \<and>
   length (slept (snd (withRetry always429 budgetOfTwo))) = 2"
  using withRetry_exhausts_budget [of budgetOfTwo 2 always429]
  by (simp add: maxRetriesOf_budgetOfTwo always429_def isRetryableOf_default
      statusFailure_429_accepted)

subsection \<open>The delays of a run\<close>






lemma withRetry_always429:
  "withRetry always429 budgetOfTwo =
     (Inl (statusFailure 429),
      \<lparr>calls = 3,
       stderr = [''Transient error, retrying in 1000ms (attempt 1/2)'',
                 ''Transient error, retrying in 2000ms (attempt 2/2)''],
       slept = [1000, 2000]\<rparr>)"
  by code_simp





subsection \<open>Strings: occurrence, letter case, integers\<close>

lemma startsWith_iff: "startsWith s t \<longleftrightarrow> (\<exists>post. s = t @ post)"
  by (induction s t rule: startsWith.induct) simp_all

lemma run_Cons:
  "(\<exists>pre post. c # cs = pre @ t @ post) \<longleftrightarrow>
   (\<exists>post. c # cs = t @ post) \<or> (\<exists>pre post. cs = pre @ t @ post)"
proof
  assume "\<exists>pre post. c # cs = pre @ t @ post"
  then obtain pre post where p: "c # cs = pre @ t @ post" by blast
  show "(\<exists>post. c # cs = t @ post) \<or> (\<exists>pre post. cs = pre @ t @ post)"
  proof (cases pre)
    case Nil
    with p have "c # cs = t @ post" by simp
    then show ?thesis by blast
  next
    case (Cons a pre')
    with p have "cs = pre' @ t @ post" by simp
    then show ?thesis by blast
  qed
next
  assume "(\<exists>post. c # cs = t @ post) \<or> (\<exists>pre post. cs = pre @ t @ post)"
  then show "\<exists>pre post. c # cs = pre @ t @ post"
  proof
    assume "\<exists>post. c # cs = t @ post"
    then obtain post where "c # cs = t @ post" by blast
    then have "c # cs = [] @ t @ post" by simp
    then show ?thesis by (intro exI [of _ "[]"] exI)
  next
    assume "\<exists>pre post. cs = pre @ t @ post"
    then obtain pre post where "cs = pre @ t @ post" by blast
    then have "c # cs = (c # pre) @ t @ post" by simp
    then show ?thesis by (intro exI [of _ "c # pre"] exI)
  qed
qed

lemma includes_str_iff: "includes_str s t \<longleftrightarrow> (\<exists>pre post. s = pre @ t @ post)"
proof (induction s)
  case Nil
  show ?case by simp
next
  case (Cons c cs)
  have "includes_str (c # cs) t \<longleftrightarrow> startsWith (c # cs) t \<or> includes_str cs t"
    by simp
  also have "\<dots> \<longleftrightarrow> (\<exists>post. c # cs = t @ post) \<or> (\<exists>pre post. cs = pre @ t @ post)"
    by (simp only: Cons.IH startsWith_iff)
  also have "\<dots> \<longleftrightarrow> (\<exists>pre post. c # cs = pre @ t @ post)"
    by (simp only: run_Cons)
  finally show ?case .
qed

lemma map_split:
  assumes "map f xs = ys @ zs"
  obtains us vs where "xs = us @ vs" and "map f us = ys" and "map f vs = zs"
proof
  show "xs = take (length ys) xs @ drop (length ys) xs" by simp
  from assms have "take (length ys) (map f xs) = ys" by simp
  then show "map f (take (length ys) xs) = ys" by (simp only: take_map)
  from assms have "drop (length ys) (map f xs) = zs" by simp
  then show "map f (drop (length ys) xs) = zs" by (simp only: drop_map)
qed

lemma includes_toLowerCase:
  "includes_str (toLowerCase message) (toLowerCase fragment) = containsIgnoringCase message fragment"
proof
  assume "includes_str (toLowerCase message) (toLowerCase fragment)"
  then obtain pre post where "toLowerCase message = pre @ toLowerCase fragment @ post"
    unfolding includes_str_iff by blast
  then have m: "map lower_char message = pre @ (toLowerCase fragment @ post)"
    by (simp only: toLowerCase_def)
  from m obtain b rest where b: "message = b @ rest"
    and r: "map lower_char rest = toLowerCase fragment @ post"
    by (rule map_split)
  from r obtain run a where ra: "rest = run @ a" and l: "map lower_char run = toLowerCase fragment"
    by (rule map_split)
  from l have "toLowerCase run = toLowerCase fragment" by (simp only: toLowerCase_def)
  moreover from b ra have "message = b @ run @ a" by simp
  ultimately show "containsIgnoringCase message fragment"
    unfolding containsIgnoringCase_def by blast
next
  assume "containsIgnoringCase message fragment"
  then obtain b run a where m: "message = b @ run @ a"
    and l: "toLowerCase run = toLowerCase fragment"
    unfolding containsIgnoringCase_def by blast
  have "toLowerCase message = toLowerCase b @ toLowerCase run @ toLowerCase a"
    by (simp add: m toLowerCase_def)
  with l have "toLowerCase message = toLowerCase b @ toLowerCase fragment @ toLowerCase a"
    by simp
  then show "includes_str (toLowerCase message) (toLowerCase fragment)"
    unfolding includes_str_iff by blast
qed

lemma fragments_lower:
  "toLowerCase ''timeout'' = ''timeout''"
  "toLowerCase ''econnreset'' = ''econnreset''"
  "toLowerCase ''econnrefused'' = ''econnrefused''"
  "toLowerCase ''socket hang up'' = ''socket hang up''"
  "toLowerCase ''network'' = ''network''"
  "toLowerCase ''request_timeout'' = ''request_timeout''"
  by (simp_all add: toLowerCase_def lower_char_def)

lemma fragment_cases:
  "(\<exists>fragment \<in> set specFragments. containsIgnoringCase m fragment) \<longleftrightarrow>
     includes_str (toLowerCase m) ''timeout'' \<or>
     includes_str (toLowerCase m) ''econnreset'' \<or>
     includes_str (toLowerCase m) ''econnrefused'' \<or>
     includes_str (toLowerCase m) ''socket hang up'' \<or>
     includes_str (toLowerCase m) ''network'' \<or>
     includes_str (toLowerCase m) ''request_timeout''"
proof -
  have c: "containsIgnoringCase m f = includes_str (toLowerCase m) f" if "toLowerCase f = f" for f
    using includes_toLowerCase [of m f] that by simp
  show ?thesis
    unfolding specFragments_def
    by (simp only: list.set bex_simps Un_iff insert_iff empty_iff ball_simps simp_thms
        c [OF fragments_lower(1)] c [OF fragments_lower(2)] c [OF fragments_lower(3)]
        c [OF fragments_lower(4)] c [OF fragments_lower(5)] c [OF fragments_lower(6)])
qed












text \<open>Printing an integer and reading it back.\<close>

declare digitsOf.simps [simp del]







subsection \<open>The default retryability predicate\<close>


lemma retryableNumber_iff: "retryableNumber v \<longleftrightarrow> (\<exists>n \<in> specStatusCodes. v = JNum n)"
  by (cases v)
    (simp_all add: isRetryableStatusCode_def RETRYABLE_STATUS_CODES_def specStatusCodes_def)

lemma coalesce_statusOrCode:
  "coalesce (Reflect_get failure ''status'') (Reflect_get failure ''code'') = statusOrCode failure"
  by (cases "Reflect_get failure ''status''") (simp_all add: coalesce_def statusOrCode_def)

lemma Reflect_get_primitive:
  "\<not> (truthy v \<and> typeof_js v = ''object'') \<Longrightarrow> Reflect_get v key = JUndefined"
  by (cases v) (simp_all add: Reflect_get_def)

lemma socketHangUp_retryable: "defaultIsRetryable socketHangUp"
  by code_simp

text \<open>
  Claim C5, as amended. The default predicate returns true for a failure if and only if
  (a) the failure carries a number of 408, 429, 500, 502, 503, 504 under the key
  \<open>status\<close>, or under the key \<open>code\<close> when \<open>status\<close> is absent, \<open>undefined\<close> or
  \<open>null\<close>, or under the key \<open>statusCode\<close>, or (b) it is an \<open>Error\<close> whose message
  contains, up to the case of letters, one of \<open>timeout\<close>, \<open>econnreset\<close>,
  \<open>econnrefused\<close>, \<open>socket hang up\<close>, \<open>network\<close>, \<open>request_timeout\<close>. Every other
  failure yields false.
\<close>

theorem defaultIsRetryable_iff:
  "defaultIsRetryable failure \<longleftrightarrow>
     (\<exists>n \<in> specStatusCodes.
        statusOrCode failure = JNum n \<or> Reflect_get failure ''statusCode'' = JNum n) \<or>
     (instanceof_Error failure \<and>
       (\<exists>fragment \<in> set specFragments. containsIgnoringCase (messageOf failure) fragment))"
proof -
  define A where "A = retryableNumber (statusOrCode failure)"
  define B where "B = retryableNumber (Reflect_get failure ''statusCode'')"
  define C where "C = (\<exists>fragment \<in> set specFragments.
     containsIgnoringCase (messageOf failure) fragment)"
  have code: "defaultIsRetryable failure \<longleftrightarrow>
     (truthy failure \<and> typeof_js failure = ''object'' \<and> (A \<or> B)) \<or>
     (instanceof_Error failure \<and> C)"
    unfolding defaultIsRetryable_def coalesce_statusOrCode Let_def
      fragment_cases [symmetric] A_def [symmetric] B_def [symmetric] C_def [symmetric]
    by simp
  have prim: "truthy failure \<and> typeof_js failure = ''object''" if ab: "A \<or> B"
  proof (rule ccontr)
    assume "\<not> (truthy failure \<and> typeof_js failure = ''object'')"
    then have "\<And>key. Reflect_get failure key = JUndefined" by (rule Reflect_get_primitive)
    with ab show False by (simp add: A_def B_def statusOrCode_def)
  qed
  have "(\<exists>n \<in> specStatusCodes.
           statusOrCode failure = JNum n \<or> Reflect_get failure ''statusCode'' = JNum n)
        \<longleftrightarrow> A \<or> B"
    unfolding A_def B_def retryableNumber_iff by blast
  with code prim show ?thesis unfolding C_def by blast
qed

theorem defaultIsRetryable_iff_witness:
  "defaultIsRetryable socketHangUp \<and>
   (\<exists>fragment \<in> set specFragments. containsIgnoringCase ''Socket Hang Up'' fragment)"
  using defaultIsRetryable_iff [of socketHangUp] socketHangUp_retryable
  by (simp add: socketHangUp_def statusOrCode_def Reflect_get_def messageOf_def)

text \<open>
  The claim as it is written, with the code looked up under either of \<open>status\<close> and
  \<open>code\<close>, fails at \<open>{ status: 200, code: 503 }\<close>: the failure carries 503 under
  \<open>code\<close>, and the predicate reads \<open>status\<close> only and returns false.
\<close>

theorem defaultIsRetryable_counterexample:
  "specIsRetryable shadowedCode \<and> \<not> defaultIsRetryable shadowedCode"
  by (simp add: specIsRetryable_def carriesRetryableCode_def shadowedCode_def
      specStatusCodes_def Reflect_get_def defaultIsRetryable_def coalesce_def
      isRetryableStatusCode_def RETRYABLE_STATUS_CODES_def)

text \<open>
  Claim C9. A thrown value that is neither an object nor an \<open>Error\<close>, a string for
  one, is rejected by the default predicate whatever its text: the messages are searched
  in \<open>Error\<close> instances only. So \<open>withRetry\<close> with the default predicate propagates
  it after the one invocation that threw it.
\<close>

theorem non_object_not_retryable:
  assumes "\<not> isObject e" and "\<not> instanceof_Error e"
  shows "\<not> defaultIsRetryable e \<and>
    (isRetryable options = None \<and> 0 \<le> maxRetriesOf options \<and> fn 0 = Inl e \<longrightarrow>
       withRetry fn options = (Inl e, \<lparr>calls = 1, stderr = [], slept = []\<rparr>))"
proof -
  from assms have n: "\<not> defaultIsRetryable e"
    by (cases e) (simp_all add: defaultIsRetryable_def)
  show ?thesis
  proof (intro conjI impI)
    show "\<not> defaultIsRetryable e" by (rule n)
  next
    assume a: "isRetryable options = None \<and> 0 \<le> maxRetriesOf options \<and> fn 0 = Inl e"
    then have "\<not> isRetryableOf options e" using n by (simp add: isRetryableOf_def)
    with a show "withRetry fn options = (Inl e, \<lparr>calls = 1, stderr = [], slept = []\<rparr>)"
      by (simp add: withRetry_def noEffects_def retryLoop_not_retryable)
  qed
qed

theorem non_object_not_retryable_witness:
  "\<not> defaultIsRetryable (JStr ''request timeout'') \<and>
   withRetry throwsString noOptions =
     (Inl (JStr ''request timeout''), \<lparr>calls = 1, stderr = [], slept = []\<rparr>) \<and>
   defaultIsRetryable (JError ''request timeout'' [])"
proof -
  have "defaultIsRetryable (JError ''request timeout'' [])"
    by (simp add: defaultIsRetryable_def Reflect_get_def coalesce_def
      messageOf_def toLowerCase_def lower_char_def)
  with non_object_not_retryable [of "JStr ''request timeout''" noOptions throwsString]
  show ?thesis
    by (simp add: noOptions_def maxRetriesOf_def DEFAULT_maxRetries_def throwsString_def)
qed

subsection \<open>The default hint extractor\<close>















end
